theory Spec2Isabelle
  imports Complex_Main "HOL-Library.Sublist"
begin

section \<open>The iOS native module (WifiManager, Swift)\<close>

text \<open>
  A string is a list of characters, and equality of strings stands for the string
  equality of the language (\<open>==\<close> in Swift, \<open>===\<close> in JavaScript). The operations on
  strings that follow the Unicode rules of the platform (\<open>lowercased\<close> and
  \<open>hasPrefix\<close> in Swift, \<open>toLowerCase\<close> in JavaScript) belong to the platform, not
  to this repository: they are parameters of the environment.

  The promise handed to every native method is settled at most once; its settlement is
  the outcome of the model functions: \<open>Resolved\<close> for \<open>resolve(nil)\<close> and
  \<open>Rejected code\<close> for \<open>reject(code, message, error)\<close>, where \<open>code\<close> is the raw
  string of a \<open>WifiError\<close>. The human-readable message is left out. The manager
  instance is taken to outlive every call, so each \<open>guard let self\<close> passes.
\<close>

datatype WifiError =
    unavailableForOSVersion
  | invalid
  | invalidSSID
  | invalidSSIDPrefix
  | invalidPassphrase
  | userDenied
  | unableToConnect
  | locationPermissionDenied
  | locationPermissionRestricted
  | didNotFindNetwork
  | couldNotDetectSSID
  | timeout

fun WifiError_rawValue :: "WifiError \<Rightarrow> string" where
  "WifiError_rawValue unavailableForOSVersion = ''unavailableForOSVersion''"
| "WifiError_rawValue invalid = ''invalid''"
| "WifiError_rawValue invalidSSID = ''invalidSSID''"
| "WifiError_rawValue invalidSSIDPrefix = ''invalidSSIDPrefix''"
| "WifiError_rawValue invalidPassphrase = ''invalidPassphrase''"
| "WifiError_rawValue userDenied = ''userDenied''"
| "WifiError_rawValue unableToConnect = ''unableToConnect''"
| "WifiError_rawValue locationPermissionDenied = ''locationPermissionDenied''"
| "WifiError_rawValue locationPermissionRestricted = ''locationPermissionRestricted''"
| "WifiError_rawValue didNotFindNetwork = ''didNotFindNetwork''"
| "WifiError_rawValue couldNotDetectSSID = ''couldNotDetectSSID''"
| "WifiError_rawValue timeout = ''timeoutOccurred''"

datatype promise = Resolved | Rejected string

subsection \<open>The platform: NetworkExtension as seen by the module\<close>

text \<open>
  The cases of the platform enumeration \<open>NEHotspotConfigurationError\<close> that the module
  names. Their integer raw values belong to the platform SDK, not to this repository, so
  they are a parameter (\<open>errorRawValue\<close>) of the environment.
\<close>

datatype NEHotspotConfigurationError =
    NE_invalid
  | NE_invalidSSID
  | NE_invalidSSIDPrefix
  | NE_invalidWPAPassphrase
  | NE_invalidWEPPassphrase
  | NE_userDenied
  | NE_alreadyAssociated

text \<open>
  A hotspot configuration records the initialiser that built it: for an SSID or for an
  SSID prefix, open (no passphrase) or protected by a passphrase with the \<open>isWEP\<close> flag.
\<close>

datatype network = SSID string | SSIDPrefix string

datatype credentials = Open | Passphrase string bool

record NEHotspotConfiguration =
  network :: network
  credentials :: credentials
  joinOnce :: bool

definition NEHotspotConfiguration_ssid :: "string \<Rightarrow> NEHotspotConfiguration" where
  "NEHotspotConfiguration_ssid s = \<lparr>network = SSID s, credentials = Open, joinOnce = False\<rparr>"

definition NEHotspotConfiguration_ssid_passphrase ::
  "string \<Rightarrow> string \<Rightarrow> bool \<Rightarrow> NEHotspotConfiguration" where
  "NEHotspotConfiguration_ssid_passphrase s p w =
     \<lparr>network = SSID s, credentials = Passphrase p w, joinOnce = False\<rparr>"

definition NEHotspotConfiguration_ssidPrefix :: "string \<Rightarrow> NEHotspotConfiguration" where
  "NEHotspotConfiguration_ssidPrefix s =
     \<lparr>network = SSIDPrefix s, credentials = Open, joinOnce = False\<rparr>"

definition NEHotspotConfiguration_ssidPrefix_passphrase ::
  "string \<Rightarrow> string \<Rightarrow> bool \<Rightarrow> NEHotspotConfiguration" where
  "NEHotspotConfiguration_ssidPrefix_passphrase s p w =
     \<lparr>network = SSIDPrefix s, credentials = Passphrase p w, joinOnce = False\<rparr>"

text \<open>
  The environment of one run: the major OS version (for \<open>#available\<close>), the raw values
  of the platform error cases, the SSID that the \<open>n\<close>-th identity fetch of the run
  observes (\<open>None\<close> when no identity can be detected), the \<open>NSError\<close> code, if any,
  with which the platform answers \<open>apply\<close> for a configuration, and the two string
  operations of the standard library that the module calls: \<open>lowercased env s\<close> is
  \<open>s.lowercased()\<close> and \<open>hasPrefix env s p\<close> is \<open>s.hasPrefix(p)\<close>.
\<close>

record platform =
  osVersion :: nat
  errorRawValue :: "NEHotspotConfigurationError \<Rightarrow> int"
  observedSSID :: "nat \<Rightarrow> string option"
  applyError :: "NEHotspotConfiguration \<Rightarrow> int option"
  lowercased :: "string \<Rightarrow> string"
  hasPrefix :: "string \<Rightarrow> string \<Rightarrow> bool"

text \<open>
  The effects of a run, in order: identity fetches, \<open>apply\<close> calls and the delays
  scheduled with \<open>asyncAfter\<close> (in seconds). \<open>fetches\<close> counts the identity fetches.
\<close>

datatype event =
    FetchCurrent
  | Apply NEHotspotConfiguration
  | AsyncAfter rat

record world =
  fetches :: nat
  trace :: "event list"

definition fetchCurrentSSID :: "platform \<Rightarrow> world \<Rightarrow> string option \<times> world" where
  "fetchCurrentSSID env w =
     (observedSSID env (fetches w),
      w\<lparr>fetches := Suc (fetches w), trace := trace w @ [FetchCurrent]\<rparr>)"

definition apply_config :: "platform \<Rightarrow> NEHotspotConfiguration \<Rightarrow> world \<Rightarrow> int option \<times> world" where
  "apply_config env config w = (applyError env config, w\<lparr>trace := trace w @ [Apply config]\<rparr>)"

definition asyncAfter :: "rat \<Rightarrow> world \<Rightarrow> world" where
  "asyncAfter interval w = w\<lparr>trace := trace w @ [AsyncAfter interval]\<rparr>"

subsection \<open>Error taxonomy: parseError\<close>

definition parseError :: "(NEHotspotConfigurationError \<Rightarrow> int) \<Rightarrow> int \<Rightarrow> string" where
  "parseError rv code =
     (if code = rv NE_invalid then WifiError_rawValue invalid
      else if code = rv NE_invalidSSID then WifiError_rawValue invalidSSID
      else if code = rv NE_invalidSSIDPrefix then WifiError_rawValue invalidSSIDPrefix
      else if code = rv NE_invalidWPAPassphrase \<or> code = rv NE_invalidWEPPassphrase
        then WifiError_rawValue invalidPassphrase
      else if code = rv NE_userDenied then WifiError_rawValue userDenied
      else WifiError_rawValue unableToConnect)"

subsection \<open>Verification: verifyConnection\<close>

text \<open>The value of the local \<open>isConnected\<close> computed on each tick of \<open>verifyConnection\<close>.\<close>

definition isConnected ::
  "platform \<Rightarrow> string option \<Rightarrow> bool \<Rightarrow> string option \<Rightarrow> string option \<Rightarrow> bool" where
  "isConnected env expectedSSID isPrefix ssidPrefix currentSSID =
     (case (if isPrefix then ssidPrefix else None) of
        Some pre \<Rightarrow>
          (case currentSSID of
             None \<Rightarrow> False
           | Some cur \<Rightarrow> hasPrefix env (lowercased env cur) (lowercased env pre))
      | None \<Rightarrow>
          (case expectedSSID of
             Some expected \<Rightarrow> currentSSID = Some expected
           | None \<Rightarrow> currentSSID \<noteq> None))"

function verifyConnection ::
  "platform \<Rightarrow> string option \<Rightarrow> bool \<Rightarrow> string option \<Rightarrow> int \<Rightarrow> rat \<Rightarrow> int \<Rightarrow> world
     \<Rightarrow> promise \<times> world" where
  "verifyConnection env expectedSSID isPrefix ssidPrefix maxRetries interval currentRetry w =
     (if isConnected env expectedSSID isPrefix ssidPrefix (fst (fetchCurrentSSID env w))
      then (Resolved, snd (fetchCurrentSSID env w))
      else if currentRetry \<ge> maxRetries
      then (Rejected (WifiError_rawValue unableToConnect), snd (fetchCurrentSSID env w))
      else verifyConnection env expectedSSID isPrefix ssidPrefix maxRetries interval
             (currentRetry + 1) (asyncAfter interval (snd (fetchCurrentSSID env w))))"
  by pat_completeness auto
termination
  by (relation "measure (\<lambda>(env, e, p, sp, maxRetries, i, currentRetry, w).
        nat (maxRetries - currentRetry))") auto

subsection \<open>applyConfiguration\<close>

definition applyConfiguration ::
  "platform \<Rightarrow> NEHotspotConfiguration \<Rightarrow> string option \<Rightarrow> bool \<Rightarrow> string option \<Rightarrow> world
     \<Rightarrow> promise \<times> world" where
  "applyConfiguration env config expectedSSID isPrefix ssidPrefix w =
     (case fst (apply_config env config w) of
        Some code \<Rightarrow>
          (if code = errorRawValue env NE_alreadyAssociated
           then (Resolved, snd (apply_config env config w))
           else (Rejected (parseError (errorRawValue env) code), snd (apply_config env config w)))
      | None \<Rightarrow>
          verifyConnection env expectedSSID isPrefix ssidPrefix 20 (1/2) 0
            (snd (apply_config env config w)))"

subsection \<open>The connect variants\<close>

definition available :: "nat \<Rightarrow> platform \<Rightarrow> bool" where
  "available v env = (v \<le> osVersion env)"

definition connectToProtectedSSIDOnce ::
  "platform \<Rightarrow> string \<Rightarrow> string \<Rightarrow> bool \<Rightarrow> bool \<Rightarrow> world \<Rightarrow> promise \<times> world" where
  "connectToProtectedSSIDOnce env ssid passphrase isWEP once w =
     (if \<not> available 11 env then (Rejected (WifiError_rawValue unavailableForOSVersion), w)
      else if fst (fetchCurrentSSID env w) = Some ssid
      then (Resolved, snd (fetchCurrentSSID env w))
      else applyConfiguration env
             ((if passphrase = [] then NEHotspotConfiguration_ssid ssid
               else NEHotspotConfiguration_ssid_passphrase ssid passphrase isWEP)
              \<lparr>joinOnce := once\<rparr>)
             (Some ssid) False None (snd (fetchCurrentSSID env w)))"

definition connectToProtectedSSID ::
  "platform \<Rightarrow> string \<Rightarrow> string \<Rightarrow> bool \<Rightarrow> bool \<Rightarrow> world \<Rightarrow> promise \<times> world" where
  "connectToProtectedSSID env ssid passphrase isWEP isHidden w =
     connectToProtectedSSIDOnce env ssid passphrase isWEP False w"

definition connectToSSID :: "platform \<Rightarrow> string \<Rightarrow> world \<Rightarrow> promise \<times> world" where
  "connectToSSID env ssid w = connectToProtectedSSID env ssid [] False False w"

definition connectToSSIDPrefix :: "platform \<Rightarrow> string \<Rightarrow> world \<Rightarrow> promise \<times> world" where
  "connectToSSIDPrefix env ssidPrefix w =
     (if \<not> available 13 env then (Rejected (WifiError_rawValue unavailableForOSVersion), w)
      else applyConfiguration env ((NEHotspotConfiguration_ssidPrefix ssidPrefix)\<lparr>joinOnce := False\<rparr>)
             None True (Some ssidPrefix) w)"

definition connectToProtectedSSIDPrefixOnce ::
  "platform \<Rightarrow> string \<Rightarrow> string \<Rightarrow> bool \<Rightarrow> bool \<Rightarrow> world \<Rightarrow> promise \<times> world" where
  "connectToProtectedSSIDPrefixOnce env ssidPrefix passphrase isWEP once w =
     (if \<not> available 13 env then (Rejected (WifiError_rawValue unavailableForOSVersion), w)
      else applyConfiguration env
             ((if passphrase = [] then NEHotspotConfiguration_ssidPrefix ssidPrefix
               else NEHotspotConfiguration_ssidPrefix_passphrase ssidPrefix passphrase isWEP)
              \<lparr>joinOnce := once\<rparr>)
             None True (Some ssidPrefix) w)"

definition connectToProtectedSSIDPrefix ::
  "platform \<Rightarrow> string \<Rightarrow> string \<Rightarrow> bool \<Rightarrow> world \<Rightarrow> promise \<times> world" where
  "connectToProtectedSSIDPrefix env ssidPrefix passphrase isWEP w =
     connectToProtectedSSIDPrefixOnce env ssidPrefix passphrase isWEP False w"

section \<open>The JavaScript wrapper (index.ts): the IoT helpers\<close>

text \<open>
  A call of the native module settles with a value (\<open>Resolves\<close>; \<open>None\<close> stands for
  \<open>null\<close>, \<open>undefined\<close> and for the result of a \<open>void\<close> method) or with a rejection.
  The environment gives the platform name, the settlement of each native call and the
  \<open>toLowerCase\<close> of the JavaScript engine (\<open>toLowerCase env s\<close> is
  \<open>s.toLowerCase()\<close>); the state holds the module variable \<open>isIoTNetworkBound\<close>
  and the native calls made, in order. An \<open>async\<close> function completes as \<open>Fulfilled\<close> or by throwing: a rejection
  of an awaited native call outside \<open>try\<close>, or the \<open>Error\<close> built from the expected
  and the observed SSID.
\<close>

datatype settled = Resolves "string option" | Rejects string

record ConnectOptions =
  co_ssid :: string
  co_password :: "string option"
  co_isHidden :: bool
  co_timeout :: int
  co_usePrefix :: "bool option"

record ForceWifiOptions =
  noInternet :: bool

datatype native_call =
    N_isRemoveWifiNetwork string
  | N_connectToProtectedWifiSSID ConnectOptions
  | N_connectToProtectedSSID string "string option" bool bool
  | N_connectToProtectedSSIDOnce string "string option" bool bool
  | N_connectToSSIDPrefix string
  | N_connectToProtectedSSIDPrefix string string bool
  | N_connectToProtectedSSIDPrefixOnce string "string option" bool bool
  | N_forceWifiUsageWithOptions bool ForceWifiOptions
  | N_getCurrentWifiSSID
  | N_disconnect
  | N_disconnectFromSSID string

record native =
  Platform_OS :: string
  settles :: "native_call \<Rightarrow> settled"
  toLowerCase :: "string \<Rightarrow> string"

record js_state =
  isIoTNetworkBound :: bool
  calls :: "native_call list"

datatype js_error = NativeRejection string | FailedToConnect string "string option"

datatype completion = Fulfilled | Thrown js_error

record IoTOptions =
  opt_usePrefix :: "bool option"
  opt_timeout :: "int option"

definition await :: "native \<Rightarrow> native_call \<Rightarrow> js_state \<Rightarrow> settled \<times> js_state" where
  "await env c s = (settles env c, s\<lparr>calls := calls s @ [c]\<rparr>)"

text \<open>
  \<open>a.includes(b)\<close>: \<open>b\<close> occurs in \<open>a\<close> as a contiguous substring; the search
  compares code units and involves no Unicode rule.
\<close>

definition js_includes :: "string \<Rightarrow> string \<Rightarrow> bool" where
  "js_includes a b = sublist b a"

text \<open>
  \<open>connectToIoTNetwork\<close> is one \<open>async\<close> function of four blocks, which the source
  marks with comments; each block is a definition here, and the function composes them
  in the source's order. The comparison of the verification block is the same text in
  both copies of the file.
\<close>

definition iot_connected :: "native \<Rightarrow> bool \<Rightarrow> string \<Rightarrow> string option \<Rightarrow> bool" where
  "iot_connected env usePrefix ssid currentSSID =
     (if usePrefix then
        (case currentSSID of
           None \<Rightarrow> False
         | Some cur \<Rightarrow> js_includes (toLowerCase env cur) (toLowerCase env ssid))
      else currentSSID = Some ssid)"

subsection \<open>src/index.ts\<close>

text \<open>"Connect to the network": the native connect call chosen by platform and options.\<close>

definition iot_connect ::
  "native \<Rightarrow> string \<Rightarrow> string \<Rightarrow> bool \<Rightarrow> int \<Rightarrow> js_state \<Rightarrow> settled \<times> js_state" where
  "iot_connect env ssid password usePrefix timeout' s =
     (if Platform_OS env = ''android'' then
        await env (N_connectToProtectedWifiSSID
            \<lparr>co_ssid = ssid,
             co_password = (if password \<noteq> [] then Some password else None),
             co_isHidden = False, co_timeout = timeout', co_usePrefix = None\<rparr>)
          (snd (await env (N_isRemoveWifiNetwork ssid) s))
      else if usePrefix then
        (if password \<noteq> [] then await env (N_connectToProtectedSSIDPrefix ssid password False) s
         else await env (N_connectToSSIDPrefix ssid) s)
      else
        await env (N_connectToProtectedSSID ssid
            (if password \<noteq> [] then Some password else None) False False) s)"

text \<open>"Bind traffic to this network (Android only)": a failure to bind is only logged.\<close>

definition iot_bind :: "native \<Rightarrow> js_state \<Rightarrow> js_state" where
  "iot_bind env s =
     (if Platform_OS env = ''android'' then
        (case await env (N_forceWifiUsageWithOptions True \<lparr>noInternet = True\<rparr>) s of
           (Resolves _, sb) \<Rightarrow> sb\<lparr>isIoTNetworkBound := True\<rparr>
         | (Rejects _, sb) \<Rightarrow> sb)
      else s)"

text \<open>"Cleanup on failure": the flag is cleared after the unbind call, inside the \<open>try\<close>.\<close>

definition iot_cleanup :: "native \<Rightarrow> js_state \<Rightarrow> js_state" where
  "iot_cleanup env s =
     (if Platform_OS env = ''android'' \<and> isIoTNetworkBound s then
        (case await env (N_forceWifiUsageWithOptions False \<lparr>noInternet = False\<rparr>) s of
           (Resolves _, sc) \<Rightarrow> sc\<lparr>isIoTNetworkBound := False\<rparr>
         | (Rejects _, sc) \<Rightarrow> sc)
      else s)"

definition connectToIoTNetwork ::
  "native \<Rightarrow> string \<Rightarrow> string \<Rightarrow> IoTOptions \<Rightarrow> js_state \<Rightarrow> completion \<times> js_state" where
  "connectToIoTNetwork env ssid password options s =
     (let usePrefix = (case opt_usePrefix options of Some b \<Rightarrow> b | None \<Rightarrow> False);
          timeout' = (case opt_timeout options of Some t \<Rightarrow> t | None \<Rightarrow> 30)
      in
      case iot_connect env ssid password usePrefix timeout' s of
        (Rejects e, s1) \<Rightarrow> (Thrown (NativeRejection e), s1)
      | (Resolves _, s1) \<Rightarrow>
          (case await env N_getCurrentWifiSSID (iot_bind env s1) of
             (Rejects e, s2) \<Rightarrow> (Thrown (NativeRejection e), s2)
           | (Resolves currentSSID, s2) \<Rightarrow>
               (if \<not> iot_connected env usePrefix ssid currentSSID
                then (Thrown (FailedToConnect ssid currentSSID), iot_cleanup env s2)
                else (Fulfilled, s2))))"

definition disconnectFromIoTNetwork :: "native \<Rightarrow> js_state \<Rightarrow> completion \<times> js_state" where
  "disconnectFromIoTNetwork env s =
     (let s1 = (if Platform_OS env = ''android'' \<and> isIoTNetworkBound s then
                  (case await env (N_forceWifiUsageWithOptions False \<lparr>noInternet = False\<rparr>) s of
                     (Resolves _, sa) \<Rightarrow> sa\<lparr>isIoTNetworkBound := False\<rparr>
                   | (Rejects _, sa) \<Rightarrow> sa)
                else s);
          s2 = (if Platform_OS env = ''android'' then
                  (case await env N_disconnect s1 of
                     (Resolves _, sb) \<Rightarrow> sb
                   | (Rejects _, sb) \<Rightarrow> sb)
                else s1)
      in (Fulfilled, s2))"

subsection \<open>The second copy of index.ts (unnamed part 004)\<close>

definition iot_connect_part004 ::
  "native \<Rightarrow> string \<Rightarrow> string \<Rightarrow> bool \<Rightarrow> int \<Rightarrow> js_state \<Rightarrow> settled \<times> js_state" where
  "iot_connect_part004 env ssid password usePrefix timeout' s =
     (if Platform_OS env = ''android'' then
        await env (N_connectToProtectedWifiSSID
            \<lparr>co_ssid = ssid,
             co_password = (if password \<noteq> [] then Some password else None),
             co_isHidden = False, co_timeout = timeout', co_usePrefix = Some usePrefix\<rparr>) s
      else if usePrefix then
        await env (N_connectToProtectedSSIDPrefixOnce ssid
            (if password \<noteq> [] then Some password else None) False True) s
      else
        await env (N_connectToProtectedSSIDOnce ssid
            (if password \<noteq> [] then Some password else None) False True) s)"

definition iot_bind_part004 :: "native \<Rightarrow> js_state \<Rightarrow> js_state" where
  "iot_bind_part004 env s =
     (if Platform_OS env = ''android'' then
        (case await env (N_forceWifiUsageWithOptions True \<lparr>noInternet = True\<rparr>) s of
           (Resolves _, sb) \<Rightarrow> sb\<lparr>isIoTNetworkBound := True\<rparr>
         | (Rejects _, sb) \<Rightarrow> sb)
      else s\<lparr>isIoTNetworkBound := True\<rparr>)"

text \<open>Here the flag is cleared once more after the \<open>try\<close>, whatever the unbind call did.\<close>

definition iot_cleanup_part004 :: "native \<Rightarrow> js_state \<Rightarrow> js_state" where
  "iot_cleanup_part004 env s =
     (if Platform_OS env = ''android'' \<and> isIoTNetworkBound s then
        (case await env (N_forceWifiUsageWithOptions False \<lparr>noInternet = False\<rparr>) s of
           (Resolves _, sc) \<Rightarrow> sc\<lparr>isIoTNetworkBound := False\<rparr>
         | (Rejects _, sc) \<Rightarrow> sc)
      else s)\<lparr>isIoTNetworkBound := False\<rparr>"

definition connectToIoTNetwork_part004 ::
  "native \<Rightarrow> string \<Rightarrow> string \<Rightarrow> IoTOptions \<Rightarrow> js_state \<Rightarrow> completion \<times> js_state" where
  "connectToIoTNetwork_part004 env ssid password options s =
     (let usePrefix = (case opt_usePrefix options of Some b \<Rightarrow> b | None \<Rightarrow> False);
          timeout' = (case opt_timeout options of Some t \<Rightarrow> t | None \<Rightarrow> 30)
      in
      case iot_connect_part004 env ssid password usePrefix timeout' s of
        (Rejects e, s1) \<Rightarrow> (Thrown (NativeRejection e), s1)
      | (Resolves _, s1) \<Rightarrow>
          (case await env N_getCurrentWifiSSID (iot_bind_part004 env s1) of
             (Rejects e, s2) \<Rightarrow> (Thrown (NativeRejection e), s2)
           | (Resolves currentSSID, s2) \<Rightarrow>
               (if \<not> iot_connected env usePrefix ssid currentSSID
                then (Thrown (FailedToConnect ssid currentSSID), iot_cleanup_part004 env s2)
                else (Fulfilled, s2))))"

definition disconnectFromIoTNetwork_part004 :: "native \<Rightarrow> js_state \<Rightarrow> completion \<times> js_state" where
  "disconnectFromIoTNetwork_part004 env s =
     (let s1 = (if Platform_OS env = ''android'' then
                  (case await env N_disconnect
                          (if isIoTNetworkBound s then
                             (case await env (N_forceWifiUsageWithOptions False \<lparr>noInternet = False\<rparr>) s of
                                (Resolves _, sa) \<Rightarrow> sa
                              | (Rejects _, sa) \<Rightarrow> sa)
                           else s)
                   of
                     (Resolves _, sb) \<Rightarrow> sb
                   | (Rejects _, sb) \<Rightarrow> sb)
                else
                  (case await env N_getCurrentWifiSSID s of
                     (Resolves currentSSID, sa) \<Rightarrow>
                       (case currentSSID of
                          None \<Rightarrow> sa
                        | Some cur \<Rightarrow>
                            (if cur \<noteq> [] then
                               (case await env (N_disconnectFromSSID cur) sa of
                                  (Resolves _, sb) \<Rightarrow> sb
                                | (Rejects _, sb) \<Rightarrow> sb)
                             else sa))
                   | (Rejects _, sa) \<Rightarrow> sa))
      in (Fulfilled, s1\<lparr>isIoTNetworkBound := False\<rparr>))"

section \<open>Observations and reference notions used in the statements\<close>

text \<open>The configurations handed to \<open>apply\<close> in a trace, in order.\<close>

fun appliedConfigs :: "event list \<Rightarrow> NEHotspotConfiguration list" where
  "appliedConfigs [] = []"
| "appliedConfigs (Apply c # es) = c # appliedConfigs es"
| "appliedConfigs (FetchCurrent # es) = appliedConfigs es"
| "appliedConfigs (AsyncAfter d # es) = appliedConfigs es"

text \<open>
  Reference notions for text in the ASCII range. Prefix matching without case
  sensitivity is stated on the characters themselves and without reference to
  lower-casing: the identity is at least as long as the target and agrees with it
  position by position up to the case of the letters A to Z.
\<close>

definition is_upper :: "char \<Rightarrow> bool" where
  "is_upper c = (65 \<le> (of_char c :: nat) \<and> (of_char c :: nat) \<le> 90)"

definition same_ignoring_case :: "char \<Rightarrow> char \<Rightarrow> bool" where
  "same_ignoring_case a b =
     (a = b \<or> (is_upper a \<and> (of_char b :: nat) = of_char a + 32)
            \<or> (is_upper b \<and> (of_char a :: nat) = of_char b + 32))"

definition starts_with_ignoring_case :: "string \<Rightarrow> string \<Rightarrow> bool" where
  "starts_with_ignoring_case identity target =
     (length target \<le> length identity
      \<and> list_all2 same_ignoring_case (take (length target) identity) target)"

text \<open>
  Lower-casing of ASCII text: the letters A to Z are mapped to a to z and nothing else
  changes. On a string in the ASCII range the \<open>lowercased\<close> of Swift and the
  \<open>toLowerCase\<close> of JavaScript return this string, and \<open>hasPrefix\<close> compares
  character by character. \<open>ascii_text env target identity\<close> says that the platform's
  operations act so on the two strings at hand; it holds in particular when both are
  in the ASCII range, and it is what the statements about plain text assume.
\<close>

definition ascii_lowercased_char :: "char \<Rightarrow> char" where
  "ascii_lowercased_char c =
     (if 65 \<le> (of_char c :: nat) \<and> (of_char c :: nat) \<le> 90
      then char_of ((of_char c :: nat) + 32) else c)"

definition ascii_lowercased :: "string \<Rightarrow> string" where
  "ascii_lowercased s = map ascii_lowercased_char s"

definition list_hasPrefix :: "string \<Rightarrow> string \<Rightarrow> bool" where
  "list_hasPrefix s p = prefix p s"

definition ascii_text :: "platform \<Rightarrow> string \<Rightarrow> string \<Rightarrow> bool" where
  "ascii_text env target identity =
     (lowercased env target = ascii_lowercased target
      \<and> lowercased env identity = ascii_lowercased identity
      \<and> hasPrefix env (ascii_lowercased identity) (ascii_lowercased target)
          = list_hasPrefix (ascii_lowercased identity) (ascii_lowercased target))"

subsection \<open>Concrete environments for the examples\<close>

text \<open>
  Every string of the examples is in the ASCII range, so the environments take the
  ASCII operations for the platform's.
\<close>

text \<open>The raw values that the platform SDK documents for the error cases.\<close>

fun sdk_rawValue :: "NEHotspotConfigurationError \<Rightarrow> int" where
  "sdk_rawValue NE_invalid = 0"
| "sdk_rawValue NE_invalidSSID = 1"
| "sdk_rawValue NE_invalidWPAPassphrase = 2"
| "sdk_rawValue NE_invalidWEPPassphrase = 3"
| "sdk_rawValue NE_userDenied = 7"
| "sdk_rawValue NE_alreadyAssociated = 13"
| "sdk_rawValue NE_invalidSSIDPrefix = 15"

definition start :: world where
  "start = \<lparr>fetches = 0, trace = []\<rparr>"

definition no_identity :: "nat \<Rightarrow> string option" where
  "no_identity n = None"

definition identity_from_third_fetch :: "nat \<Rightarrow> string option" where
  "identity_from_third_fetch n = (if n < 2 then None else Some ''IoT-Device-42'')"


definition accepts :: "NEHotspotConfiguration \<Rightarrow> int option" where
  "accepts c = None"

definition answers_already_associated :: "NEHotspotConfiguration \<Rightarrow> int option" where
  "answers_already_associated c = Some 13"

definition env_never :: platform where
  "env_never = \<lparr>osVersion = 15, errorRawValue = sdk_rawValue,
                 observedSSID = no_identity, applyError = accepts,
     lowercased = ascii_lowercased, hasPrefix = list_hasPrefix\<rparr>"

definition env_third :: platform where
  "env_third = \<lparr>osVersion = 15, errorRawValue = sdk_rawValue,
                 observedSSID = identity_from_third_fetch, applyError = accepts,
     lowercased = ascii_lowercased, hasPrefix = list_hasPrefix\<rparr>"


definition env_associated :: platform where
  "env_associated = \<lparr>osVersion = 15, errorRawValue = sdk_rawValue,
                      observedSSID = no_identity, applyError = answers_already_associated,
     lowercased = ascii_lowercased, hasPrefix = list_hasPrefix\<rparr>"

text \<open>Environments and starting points for the JavaScript wrapper.\<close>

fun unbind_rejects :: "native_call \<Rightarrow> settled" where
  "unbind_rejects N_getCurrentWifiSSID = Resolves (Some ''HomeWifi'')"
| "unbind_rejects (N_forceWifiUsageWithOptions useWifi opts) =
     (if useWifi then Resolves None else Rejects ''couldNotGetConnectivityManager'')"
| "unbind_rejects c = Resolves None"

fun identity_rejects :: "native_call \<Rightarrow> settled" where
  "identity_rejects N_getCurrentWifiSSID = Rejects ''couldNotDetectSSID''"
| "identity_rejects c = Resolves None"

fun on_other_network :: "native_call \<Rightarrow> settled" where
  "on_other_network N_getCurrentWifiSSID = Resolves (Some ''My-IoT-Cam'')"
| "on_other_network c = Resolves None"

definition android_unbind_rejects :: native where
  "android_unbind_rejects = \<lparr>Platform_OS = ''android'', settles = unbind_rejects,
     toLowerCase = ascii_lowercased\<rparr>"

definition ios_identity_rejects :: native where
  "ios_identity_rejects = \<lparr>Platform_OS = ''ios'', settles = identity_rejects,
     toLowerCase = ascii_lowercased\<rparr>"

definition ios_on_other_network :: native where
  "ios_on_other_network = \<lparr>Platform_OS = ''ios'', settles = on_other_network,
     toLowerCase = ascii_lowercased\<rparr>"

definition idle :: js_state where
  "idle = \<lparr>isIoTNetworkBound = False, calls = []\<rparr>"

definition default_options :: IoTOptions where
  "default_options = \<lparr>opt_usePrefix = None, opt_timeout = None\<rparr>"

definition prefix_options :: IoTOptions where
  "prefix_options = \<lparr>opt_usePrefix = Some True, opt_timeout = None\<rparr>"


section \<open>Basic facts about the effects\<close>

declare verifyConnection.simps [simp del]

lemma fetchCurrentSSID_simps [simp]:
  "fst (fetchCurrentSSID env w) = observedSSID env (fetches w)"
  "snd (fetchCurrentSSID env w) = w\<lparr>fetches := Suc (fetches w), trace := trace w @ [FetchCurrent]\<rparr>"
  by (simp_all add: fetchCurrentSSID_def)

lemma asyncAfter_simps [simp]:
  "fetches (asyncAfter i w) = fetches w"
  "trace (asyncAfter i w) = trace w @ [AsyncAfter i]"
  by (simp_all add: asyncAfter_def)

lemma apply_config_simps [simp]:
  "fst (apply_config env c w) = applyError env c"
  "snd (apply_config env c w) = w\<lparr>trace := trace w @ [Apply c]\<rparr>"
  by (simp_all add: apply_config_def)

lemma appliedConfigs_append [simp]:
  "appliedConfigs (xs @ ys) = appliedConfigs xs @ appliedConfigs ys"
  by (induction xs rule: appliedConfigs.induct) simp_all

lemma isConnected_None [simp]: "isConnected env e p sp None = False"
  by (simp add: isConnected_def split: option.splits)

lemma inj_WifiError_rawValue: "WifiError_rawValue a = WifiError_rawValue b \<Longrightarrow> a = b"
  by (cases a; cases b) simp_all

subsection \<open>The poller, tick by tick\<close>

lemma verifyConnection_never_matching:
  "currentRetry \<le> maxRetries \<Longrightarrow>
   (\<forall>i \<le> nat (maxRetries - currentRetry). \<not> isConnected env e p sp (observedSSID env (fetches w + i))) \<Longrightarrow>
   fst (verifyConnection env e p sp maxRetries interval currentRetry w) = Rejected (WifiError_rawValue unableToConnect)
   \<and> fetches (snd (verifyConnection env e p sp maxRetries interval currentRetry w)) = fetches w + nat (maxRetries - currentRetry) + 1"
proof (induction env e p sp maxRetries interval currentRetry w rule: verifyConnection.induct)
  case (1 env e p sp maxRetries interval currentRetry w)
  let ?w1 = "snd (fetchCurrentSSID env w)"
  from "1.prems"(2) have no0: "\<not> isConnected env e p sp (observedSSID env (fetches w))"
    by (metis add.right_neutral zero_le)
  show ?case
  proof (cases "currentRetry = maxRetries")
    case True
    with no0 show ?thesis
      by (subst (1 2) verifyConnection.simps) simp
  next
    case False
    with "1.prems"(1) have lt: "currentRetry < maxRetries" by simp
    have step: "\<forall>i \<le> nat (maxRetries - (currentRetry + 1)).
        \<not> isConnected env e p sp (observedSSID env (fetches (asyncAfter interval ?w1) + i))"
    proof (intro allI impI)
      fix i assume "i \<le> nat (maxRetries - (currentRetry + 1))"
      with lt have "Suc i \<le> nat (maxRetries - currentRetry)" by simp
      with "1.prems"(2) have "\<not> isConnected env e p sp (observedSSID env (fetches w + Suc i))" by blast
      then show "\<not> isConnected env e p sp (observedSSID env (fetches (asyncAfter interval ?w1) + i))"
        by simp
    qed
    have nge: "\<not> currentRetry \<ge> maxRetries" using lt by simp
    have no0': "\<not> isConnected env e p sp (fst (fetchCurrentSSID env w))" using no0 by simp
    have le': "currentRetry + 1 \<le> maxRetries" using lt by simp
    note IH = "1.IH" [OF no0' nge le' step]
    have unf: "verifyConnection env e p sp maxRetries interval currentRetry w =
          verifyConnection env e p sp maxRetries interval (currentRetry + 1) (asyncAfter interval ?w1)"
      using no0 nge by (subst verifyConnection.simps) simp
    have "nat (maxRetries - (currentRetry + 1)) + 1 = nat (maxRetries - currentRetry)"
      using lt by simp
    with IH show ?thesis unfolding unf by simp
  qed
qed

lemma verifyConnection_first_match:
  "j \<le> nat (maxRetries - currentRetry) \<Longrightarrow>
   (\<forall>i < j. \<not> isConnected env e p sp (observedSSID env (fetches w + i))) \<Longrightarrow>
   isConnected env e p sp (observedSSID env (fetches w + j)) \<Longrightarrow>
   fst (verifyConnection env e p sp maxRetries interval currentRetry w) = Resolved
   \<and> fetches (snd (verifyConnection env e p sp maxRetries interval currentRetry w)) = fetches w + j + 1"
proof (induction env e p sp maxRetries interval currentRetry w arbitrary: j rule: verifyConnection.induct)
  case (1 env e p sp maxRetries interval currentRetry w)
  let ?w1 = "snd (fetchCurrentSSID env w)"
  show ?case
  proof (cases j)
    case 0
    with "1.prems"(3) show ?thesis
      by (subst (1 2) verifyConnection.simps) simp
  next
    case (Suc j')
    with "1.prems"(2) have no0: "\<not> isConnected env e p sp (observedSSID env (fetches w))"
      by (metis add.right_neutral zero_less_Suc)
    from Suc "1.prems"(1) have lt: "currentRetry < maxRetries" by simp
    have nge: "\<not> currentRetry \<ge> maxRetries" using lt by simp
    have no0': "\<not> isConnected env e p sp (fst (fetchCurrentSSID env w))" using no0 by simp
    have b: "j' \<le> nat (maxRetries - (currentRetry + 1))" using Suc "1.prems"(1) lt by simp
    have step: "\<forall>i < j'. \<not> isConnected env e p sp (observedSSID env (fetches (asyncAfter interval ?w1) + i))"
    proof (intro allI impI)
      fix i assume "i < j'"
      then have "Suc i < j" using Suc by simp
      with "1.prems"(2) have "\<not> isConnected env e p sp (observedSSID env (fetches w + Suc i))" by blast
      then show "\<not> isConnected env e p sp (observedSSID env (fetches (asyncAfter interval ?w1) + i))" by simp
    qed
    have hit: "isConnected env e p sp (observedSSID env (fetches (asyncAfter interval ?w1) + j'))"
      using "1.prems"(3) Suc by simp
    note IH = "1.IH" [OF no0' nge b step hit]
    have unf: "verifyConnection env e p sp maxRetries interval currentRetry w =
          verifyConnection env e p sp maxRetries interval (currentRetry + 1) (asyncAfter interval ?w1)"
      using no0 nge by (subst verifyConnection.simps) simp
    from IH show ?thesis unfolding unf using Suc by simp
  qed
qed

lemma verifyConnection_applied:
  "appliedConfigs (trace (snd (verifyConnection env e p sp maxRetries interval currentRetry w)))
     = appliedConfigs (trace w)"
proof (induction env e p sp maxRetries interval currentRetry w rule: verifyConnection.induct)
  case (1 env e p sp maxRetries interval currentRetry w)
  show ?case
    by (subst verifyConnection.simps) (use 1 in simp)
qed

lemma applyConfiguration_applied:
  "appliedConfigs (trace (snd (applyConfiguration env c e p sp w))) = appliedConfigs (trace w) @ [c]"
  by (simp add: applyConfiguration_def verifyConnection_applied split: option.splits)

lemma verifyConnection_rejection_code:
  "fst (verifyConnection env e p sp maxRetries interval currentRetry w) = Rejected code \<Longrightarrow>
   code = WifiError_rawValue unableToConnect"
proof (induction env e p sp maxRetries interval currentRetry w rule: verifyConnection.induct)
  case (1 env e p sp maxRetries interval currentRetry w)
  from "1.prems" show ?case
    by (subst (asm) verifyConnection.simps) (use "1.IH" in \<open>auto split: if_splits\<close>)
qed

subsection \<open>Lower-casing and prefix matching without case\<close>

lemma ascii_lowercased_char_eq_iff:
  "ascii_lowercased_char a = ascii_lowercased_char b \<longleftrightarrow> same_ignoring_case a b"
proof -
  have of_char_ascii_lowercased: "(of_char (ascii_lowercased_char c) :: nat) =
     (if 65 \<le> (of_char c :: nat) \<and> (of_char c :: nat) \<le> 90 then of_char c + 32 else of_char c)"
    for c by (simp add: ascii_lowercased_char_def)
  have "ascii_lowercased_char a = ascii_lowercased_char b \<longleftrightarrow>
        (of_char (ascii_lowercased_char a) :: nat) = of_char (ascii_lowercased_char b)"
    by simp
  also have "\<dots> \<longleftrightarrow> same_ignoring_case a b"
    unfolding of_char_ascii_lowercased same_ignoring_case_def is_upper_def
    using of_char_eq_iff [of a b, where ?'a = nat]
    by auto
  finally show ?thesis .
qed

lemma prefix_map_iff:
  "prefix (map f t) (map f s) \<longleftrightarrow>
     length t \<le> length s \<and> list_all2 (\<lambda>a b. f a = f b) (take (length t) s) t"
proof (induction t arbitrary: s)
  case Nil
  then show ?case by simp
next
  case (Cons x t)
  then show ?case by (cases s) auto
qed

lemma prefix_ascii_lowercased_iff:
  "prefix (ascii_lowercased t) (ascii_lowercased s) \<longleftrightarrow> starts_with_ignoring_case s t"
  by (simp add: ascii_lowercased_def prefix_map_iff ascii_lowercased_char_eq_iff
      starts_with_ignoring_case_def)

lemma isConnected_prefix_ascii_text:
  "ascii_text env target identity \<Longrightarrow>
   isConnected env expectedSSID True (Some target) (Some identity)
     = starts_with_ignoring_case identity target"
  by (simp add: isConnected_def ascii_text_def list_hasPrefix_def prefix_ascii_lowercased_iff)

subsection \<open>The blocks of the IoT connect operation\<close>

lemma iot_cleanup_part004_clears_flag [simp]:
  "isIoTNetworkBound (iot_cleanup_part004 env s) = False"
  by (simp add: iot_cleanup_part004_def)

lemma iot_cleanup_keeps_flag_when_unbind_rejects:
  "Platform_OS env = ''android'' \<Longrightarrow> isIoTNetworkBound s \<Longrightarrow>
   settles env (N_forceWifiUsageWithOptions False \<lparr>noInternet = False\<rparr>) = Rejects e \<Longrightarrow>
   isIoTNetworkBound (iot_cleanup env s)"
  by (simp add: iot_cleanup_def await_def)

lemma part004_mismatch_clears_flag:
  "fst (connectToIoTNetwork_part004 env ssid password options s) = Thrown (FailedToConnect a b) \<Longrightarrow>
   \<not> isIoTNetworkBound (snd (connectToIoTNetwork_part004 env ssid password options s))"
  unfolding connectToIoTNetwork_part004_def Let_def
  by (auto split: prod.splits settled.splits if_splits)

lemma prefix_match_is_accepted:
  "toLowerCase env ssid = ascii_lowercased ssid \<Longrightarrow>
   toLowerCase env cur = ascii_lowercased cur \<Longrightarrow>
   starts_with_ignoring_case cur ssid \<Longrightarrow> iot_connected env True ssid (Some cur)"
  by (simp add: iot_connected_def js_includes_def prefix_ascii_lowercased_iff [symmetric])

section \<open>The error taxonomy\<close>

text \<open>
  Claim C8. \<open>parseError\<close> is total: every platform code is mapped to the raw string of
  exactly one \<open>WifiError\<close> kind, and every code outside the recognised set (invalid,
  invalidSSID, invalidSSIDPrefix, invalid WPA or WEP passphrase, userDenied) is mapped to
  \<open>unableToConnect\<close>. This holds whatever raw values the platform gives the cases.
\<close>

theorem parseError_total:
  "(\<exists>!k. parseError rv code = WifiError_rawValue k)
   \<and> (code \<notin> {rv NE_invalid, rv NE_invalidSSID, rv NE_invalidSSIDPrefix,
               rv NE_invalidWPAPassphrase, rv NE_invalidWEPPassphrase, rv NE_userDenied}
      \<longrightarrow> parseError rv code = WifiError_rawValue unableToConnect)"
proof
  have "\<exists>k. parseError rv code = WifiError_rawValue k"
    unfolding parseError_def by (auto simp del: WifiError_rawValue.simps)
  then show "\<exists>!k. parseError rv code = WifiError_rawValue k"
    using inj_WifiError_rawValue by metis
  show "code \<notin> {rv NE_invalid, rv NE_invalidSSID, rv NE_invalidSSIDPrefix,
               rv NE_invalidWPAPassphrase, rv NE_invalidWEPPassphrase, rv NE_userDenied}
      \<longrightarrow> parseError rv code = WifiError_rawValue unableToConnect"
    by (simp add: parseError_def)
qed

text \<open>With the SDK's raw values, code 8 (an internal error) is outside the recognised set.\<close>

theorem parseError_total_witness:
  "parseError sdk_rawValue 8 = ''unableToConnect''"
  using parseError_total [where rv = sdk_rawValue and code = 8] by simp

section \<open>The "already associated" answer\<close>

text \<open>
  Claim C1, as stated, asks that after an "already associated" answer the poller runs
  before success is reported. It does not: the promise is resolved in the completion
  handler of \<open>apply\<close> itself, and no identity is fetched. Here the run starts with no
  fetch made, and it ends with none made and \<open>apply\<close> as its only effect.
\<close>

theorem alreadyAssociated_skips_poller:
  "applyConfiguration env_associated (NEHotspotConfiguration_ssid ''IoT-Device-42'')
      (Some ''IoT-Device-42'') False None start
   = (Resolved, \<lparr>fetches = 0, trace = [Apply (NEHotspotConfiguration_ssid ''IoT-Device-42'')]\<rparr>)"
  by (simp add: applyConfiguration_def env_associated_def answers_already_associated_def start_def)

text \<open>
  Claim C1, amended. Whenever \<open>apply\<close> answers with the "already associated" code, the
  attempt resolves with success at once: \<open>apply\<close> is its only effect, the verification
  poller does not run, and the attempt is never rejected.
\<close>

theorem alreadyAssociated_resolves_unverified:
  "applyError env config = Some (errorRawValue env NE_alreadyAssociated) \<Longrightarrow>
   applyConfiguration env config expectedSSID isPrefix ssidPrefix w
     = (Resolved, w\<lparr>trace := trace w @ [Apply config]\<rparr>)"
  by (simp add: applyConfiguration_def)

theorem alreadyAssociated_resolves_unverified_witness:
  "applyConfiguration env_associated (NEHotspotConfiguration_ssidPrefix ''IoT'')
      None True (Some ''IoT'') start
   = (Resolved, start\<lparr>trace := trace start @ [Apply (NEHotspotConfiguration_ssidPrefix ''IoT'')]\<rparr>)"
  using alreadyAssociated_resolves_unverified
    [where env = env_associated and config = "NEHotspotConfiguration_ssidPrefix ''IoT''"
       and expectedSSID = None and isPrefix = True and ssidPrefix = "Some ''IoT''" and w = start]
  by (simp add: env_associated_def answers_already_associated_def)

section \<open>The open-network variant\<close>

text \<open>
  Claim C10. \<open>connectToSSID ssid\<close> behaves as \<open>connectToProtectedSSID\<close> with the empty
  passphrase and both flags false: in every environment and from every starting point the
  two settle the promise the same way (same resolution, same rejection code) and leave the
  same trace of platform calls.
\<close>

theorem connectToSSID_is_open_protected_connect:
  "connectToSSID env ssid w = connectToProtectedSSID env ssid [] False False w"
  by (simp add: connectToSSID_def)

section \<open>The verification poller\<close>

text \<open>
  Claim C2, as stated, gives the poller exactly \<open>N\<close> identity fetches when nothing
  matches. The bound is a number of retries: the first check is made with
  \<open>currentRetry = 0\<close> and the poller gives up only when \<open>currentRetry \<ge> maxRetries\<close>.
  With the bound 20 that \<open>applyConfiguration\<close> passes and an identity that is never
  detected, the poller fetches 21 times, not 20, before it rejects.
\<close>

theorem verifyConnection_default_makes_21_ticks:
  "fst (verifyConnection env_never (Some ''IoT-Device-42'') False None 20 (1/2) 0 start)
     = Rejected ''unableToConnect''
   \<and> fetches (snd (verifyConnection env_never (Some ''IoT-Device-42'') False None 20 (1/2) 0 start)) = 21"
  by code_simp


text \<open>
  Claim C2, amended. For every target, match mode and bound \<open>N\<close> (the \<open>maxRetries\<close>
  argument): if no fetched identity matches, the poller makes exactly \<open>N + 1\<close> fetches
  (the first check and \<open>N\<close> retries) and then rejects with \<open>unableToConnect\<close>; if the
  first match is on tick \<open>k + 1 \<le> N + 1\<close>, it makes exactly \<open>k + 1\<close> fetches and
  resolves at once; and when \<open>apply\<close> reports no error, \<open>applyConfiguration\<close> runs
  the poller with \<open>maxRetries = 20\<close> and an interval of half a second.
\<close>

theorem verifyConnection_ticks:
  fixes N k :: nat
  shows
  "((\<forall>i\<le>N. \<not> isConnected env e p sp (observedSSID env (fetches w + i))) \<longrightarrow>
      fst (verifyConnection env e p sp (int N) interval 0 w) = Rejected (WifiError_rawValue unableToConnect)
      \<and> fetches (snd (verifyConnection env e p sp (int N) interval 0 w)) = fetches w + (N + 1))
   \<and> (Suc k \<le> N + 1
        \<and> (\<forall>i<k. \<not> isConnected env e p sp (observedSSID env (fetches w + i)))
        \<and> isConnected env e p sp (observedSSID env (fetches w + k)) \<longrightarrow>
      fst (verifyConnection env e p sp (int N) interval 0 w) = Resolved
      \<and> fetches (snd (verifyConnection env e p sp (int N) interval 0 w)) = fetches w + Suc k)
   \<and> (applyError env config = None \<longrightarrow>
      applyConfiguration env config e p sp w
        = verifyConnection env e p sp 20 (1/2) 0 (w\<lparr>trace := trace w @ [Apply config]\<rparr>))"
proof (intro conjI impI)
  assume "\<forall>i\<le>N. \<not> isConnected env e p sp (observedSSID env (fetches w + i))"
  then have *: "\<forall>i \<le> nat (int N - 0). \<not> isConnected env e p sp (observedSSID env (fetches w + i))"
    by simp
  have "(0::int) \<le> int N" by simp
  from verifyConnection_never_matching [OF this *, where interval = interval]
  show "fst (verifyConnection env e p sp (int N) interval 0 w) = Rejected (WifiError_rawValue unableToConnect)"
    and "fetches (snd (verifyConnection env e p sp (int N) interval 0 w)) = fetches w + (N + 1)"
    by simp_all
next
  assume a: "Suc k \<le> N + 1
        \<and> (\<forall>i<k. \<not> isConnected env e p sp (observedSSID env (fetches w + i)))
        \<and> isConnected env e p sp (observedSSID env (fetches w + k))"
  then have "k \<le> nat (int N - 0)" by simp
  from verifyConnection_first_match
         [OF this, where e = e and p = p and sp = sp and env = env and w = w
            and interval = interval] a
  show "fst (verifyConnection env e p sp (int N) interval 0 w) = Resolved"
    and "fetches (snd (verifyConnection env e p sp (int N) interval 0 w)) = fetches w + Suc k"
    by simp_all
next
  assume "applyError env config = None"
  then show "applyConfiguration env config e p sp w
        = verifyConnection env e p sp 20 (1/2) 0 (w\<lparr>trace := trace w @ [Apply config]\<rparr>)"
    by (simp add: applyConfiguration_def)
qed

theorem verifyConnection_ticks_witness:
  "fst (verifyConnection env_never None True (Some ''iot'') 3 (1/2) 0 start) = Rejected ''unableToConnect''
   \<and> fetches (snd (verifyConnection env_never None True (Some ''iot'') 3 (1/2) 0 start)) = 4
   \<and> fst (verifyConnection env_third (Some ''IoT-Device-42'') False None 20 (1/2) 0 start) = Resolved
   \<and> fetches (snd (verifyConnection env_third (Some ''IoT-Device-42'') False None 20 (1/2) 0 start)) = 3
   \<and> applyConfiguration env_never (NEHotspotConfiguration_ssid ''IoT-Device-42'') (Some ''IoT-Device-42'') False None start
      = verifyConnection env_never (Some ''IoT-Device-42'') False None 20 (1/2) 0
          (start\<lparr>trace := trace start @ [Apply (NEHotspotConfiguration_ssid ''IoT-Device-42'')]\<rparr>)"
proof -
  have never: "\<forall>i\<le>3. \<not> isConnected env_never None True (Some ''iot'') (observedSSID env_never (fetches start + i))"
    by (simp add: env_never_def no_identity_def)
  have third: "Suc 2 \<le> 20 + 1
        \<and> (\<forall>i<2. \<not> isConnected env_third (Some ''IoT-Device-42'') False None (observedSSID env_third (fetches start + i)))
        \<and> isConnected env_third (Some ''IoT-Device-42'') False None (observedSSID env_third (fetches start + 2))"
    by (simp add: env_third_def identity_from_third_fetch_def isConnected_def start_def)
  have acc: "applyError env_never (NEHotspotConfiguration_ssid ''IoT-Device-42'') = None"
    by (simp add: env_never_def accepts_def)
  from never verifyConnection_ticks [where N = 3 and e = None and p = True and sp = "Some ''iot''"
      and env = env_never and w = start and interval = "1/2"]
  have 1: "fst (verifyConnection env_never None True (Some ''iot'') 3 (1/2) 0 start) = Rejected ''unableToConnect''
   \<and> fetches (snd (verifyConnection env_never None True (Some ''iot'') 3 (1/2) 0 start)) = 4"
    by (simp add: start_def)
  from third verifyConnection_ticks [where N = 20 and e = "Some ''IoT-Device-42''" and p = False
      and sp = None and env = env_third and w = start and interval = "1/2" and k = 2]
  have 2: "fst (verifyConnection env_third (Some ''IoT-Device-42'') False None 20 (1/2) 0 start) = Resolved
   \<and> fetches (snd (verifyConnection env_third (Some ''IoT-Device-42'') False None 20 (1/2) 0 start)) = 3"
    by (simp add: start_def)
  from acc verifyConnection_ticks [where N = 20 and e = "Some ''IoT-Device-42''" and p = False
      and sp = None and env = env_never and w = start and interval = "1/2" and k = 0
      and config = "NEHotspotConfiguration_ssid ''IoT-Device-42''"]
  have 3: "applyConfiguration env_never (NEHotspotConfiguration_ssid ''IoT-Device-42'') (Some ''IoT-Device-42'') False None start
      = verifyConnection env_never (Some ''IoT-Device-42'') False None 20 (1/2) 0
          (start\<lparr>trace := trace start @ [Apply (NEHotspotConfiguration_ssid ''IoT-Device-42'')]\<rparr>)"
    by simp
  from 1 2 3 show ?thesis by simp
qed


section \<open>The match decision of a tick\<close>

text \<open>
  Claim C6. On every tick \<open>verifyConnection\<close> fetches the identity once and decides:
  with an expected SSID and no prefix mode, it matches exactly when the identity is
  present and equal to the target; in prefix mode it matches exactly when the identity
  is present and, both strings lower-cased by the platform, starts with the target,
  which for text in the ASCII range is to start with the target up to the case of the
  letters; an absent identity never matches. A tick resolves on a match; without a
  match it polls again while retries remain, in particular when the identity is absent,
  and the only rejection the poller ever reports is \<open>unableToConnect\<close> on exhaustion.
  The statement holds for every platform, whatever its \<open>lowercased\<close> and
  \<open>hasPrefix\<close> do beyond the ASCII range.
\<close>

theorem tick_match_decision:
  "isConnected env (Some target) False ssidPrefix currentSSID = (currentSSID = Some target)
   \<and> isConnected env expectedSSID True (Some target) currentSSID
       = (case currentSSID of None \<Rightarrow> False
          | Some identity \<Rightarrow> hasPrefix env (lowercased env identity) (lowercased env target))
   \<and> (ascii_text env target identity \<longrightarrow>
        isConnected env expectedSSID True (Some target) (Some identity)
          = starts_with_ignoring_case identity target)
   \<and> isConnected env expectedSSID isPrefix ssidPrefix None = False
   \<and> verifyConnection env e p sp maxRetries interval currentRetry w
       = (if isConnected env e p sp (observedSSID env (fetches w))
          then (Resolved, w\<lparr>fetches := Suc (fetches w), trace := trace w @ [FetchCurrent]\<rparr>)
          else if maxRetries \<le> currentRetry
          then (Rejected (WifiError_rawValue unableToConnect),
                w\<lparr>fetches := Suc (fetches w), trace := trace w @ [FetchCurrent]\<rparr>)
          else verifyConnection env e p sp maxRetries interval (currentRetry + 1)
                 (w\<lparr>fetches := Suc (fetches w),
                    trace := trace w @ [FetchCurrent, AsyncAfter interval]\<rparr>))
   \<and> (observedSSID env (fetches w) = None \<and> currentRetry < maxRetries \<longrightarrow>
        verifyConnection env e p sp maxRetries interval currentRetry w
          = verifyConnection env e p sp maxRetries interval (currentRetry + 1)
              (w\<lparr>fetches := Suc (fetches w),
                 trace := trace w @ [FetchCurrent, AsyncAfter interval]\<rparr>))
   \<and> (fst (verifyConnection env e p sp maxRetries interval currentRetry w) = Rejected code \<longrightarrow>
        code = WifiError_rawValue unableToConnect)"
proof (intro conjI impI)
  show "isConnected env (Some target) False ssidPrefix currentSSID = (currentSSID = Some target)"
    by (simp add: isConnected_def)
  show "isConnected env expectedSSID True (Some target) currentSSID
       = (case currentSSID of None \<Rightarrow> False
          | Some identity \<Rightarrow> hasPrefix env (lowercased env identity) (lowercased env target))"
    by (simp add: isConnected_def)
  show "isConnected env expectedSSID True (Some target) (Some identity)
          = starts_with_ignoring_case identity target"
    if "ascii_text env target identity"
    using that by (rule isConnected_prefix_ascii_text)
  show "isConnected env expectedSSID isPrefix ssidPrefix None = False"
    by simp
  show tick: "verifyConnection env e p sp maxRetries interval currentRetry w
       = (if isConnected env e p sp (observedSSID env (fetches w))
          then (Resolved, w\<lparr>fetches := Suc (fetches w), trace := trace w @ [FetchCurrent]\<rparr>)
          else if maxRetries \<le> currentRetry
          then (Rejected (WifiError_rawValue unableToConnect),
                w\<lparr>fetches := Suc (fetches w), trace := trace w @ [FetchCurrent]\<rparr>)
          else verifyConnection env e p sp maxRetries interval (currentRetry + 1)
                 (w\<lparr>fetches := Suc (fetches w),
                    trace := trace w @ [FetchCurrent, AsyncAfter interval]\<rparr>))"
    by (subst verifyConnection.simps) (simp add: asyncAfter_def)
  show "verifyConnection env e p sp maxRetries interval currentRetry w
          = verifyConnection env e p sp maxRetries interval (currentRetry + 1)
              (w\<lparr>fetches := Suc (fetches w),
                 trace := trace w @ [FetchCurrent, AsyncAfter interval]\<rparr>)"
    if "observedSSID env (fetches w) = None \<and> currentRetry < maxRetries"
    using that by (subst tick) simp
  show "code = WifiError_rawValue unableToConnect"
    if "fst (verifyConnection env e p sp maxRetries interval currentRetry w) = Rejected code"
    using that by (rule verifyConnection_rejection_code)
qed

text \<open>
  On the third environment the first fetch finds no identity and the poller goes on to
  its second tick; the identity \<open>IoT-Device-42\<close> matches the prefix \<open>iot-device\<close>,
  does not match \<open>device\<close>, which it only contains, and does not equal the target
  \<open>iot-device-42\<close> of an exact match.
\<close>

theorem tick_match_decision_witness:
  "verifyConnection env_third (Some ''IoT-Device-42'') False None 20 (1/2) 0 start
     = verifyConnection env_third (Some ''IoT-Device-42'') False None 20 (1/2) 1
         \<lparr>fetches = 1, trace = [FetchCurrent, AsyncAfter (1/2)]\<rparr>
   \<and> isConnected env_third None True (Some ''iot-device'') (Some ''IoT-Device-42'')
   \<and> \<not> isConnected env_third None True (Some ''device'') (Some ''IoT-Device-42'')
   \<and> \<not> isConnected env_third (Some ''iot-device-42'') False None (Some ''IoT-Device-42'')
   \<and> fst (verifyConnection env_never (Some ''IoT-Device-42'') False None 1 (1/2) 0 start)
       = Rejected ''unableToConnect''"
proof -
  note T1 = tick_match_decision [where target = "''iot-device''" and identity = "''IoT-Device-42''"
          and currentSSID = None and expectedSSID = None and ssidPrefix = None and isPrefix = False
          and env = env_third and e = "Some ''IoT-Device-42''" and p = False and sp = None
          and maxRetries = 20 and interval = "1/2" and currentRetry = 0 and w = start
          and code = "''unableToConnect''"]
  note T2 = tick_match_decision [where target = "''device''" and identity = "''IoT-Device-42''"
          and currentSSID = None and expectedSSID = None and ssidPrefix = None and isPrefix = False
          and env = env_third and e = "Some ''IoT-Device-42''" and p = False and sp = None
          and maxRetries = 20 and interval = "1/2" and currentRetry = 0 and w = start
          and code = "''unableToConnect''"]
  note T3 = tick_match_decision [where target = "''iot-device-42''"
          and identity = "''IoT-Device-42''"
          and currentSSID = "Some ''IoT-Device-42''" and expectedSSID = None
          and ssidPrefix = None and isPrefix = False
          and env = env_third and e = "Some ''IoT-Device-42''" and p = False and sp = None
          and maxRetries = 20 and interval = "1/2" and currentRetry = 0 and w = start
          and code = "''unableToConnect''"]
  have absent: "observedSSID env_third (fetches start) = None \<and> (0::int) < 20"
    by (simp add: env_third_def identity_from_third_fetch_def start_def)
  have ascii1: "ascii_text env_third ''iot-device'' ''IoT-Device-42''"
    and ascii2: "ascii_text env_third ''device'' ''IoT-Device-42''"
    by (simp_all add: ascii_text_def env_third_def)
  have yes: "starts_with_ignoring_case ''IoT-Device-42'' ''iot-device''"
    and no: "\<not> starts_with_ignoring_case ''IoT-Device-42'' ''device''"
    by code_simp+
  have again: "verifyConnection env_third (Some ''IoT-Device-42'') False None 20 (1/2) 0 start
     = verifyConnection env_third (Some ''IoT-Device-42'') False None 20 (1/2) 1
         \<lparr>fetches = 1, trace = [FetchCurrent, AsyncAfter (1/2)]\<rparr>"
    using T1 absent by (simp add: start_def)
  have m1: "isConnected env_third None True (Some ''iot-device'') (Some ''IoT-Device-42'')"
    using T1 ascii1 yes by blast
  have m2: "\<not> isConnected env_third None True (Some ''device'') (Some ''IoT-Device-42'')"
    using T2 ascii2 no by blast
  have m3: "\<not> isConnected env_third (Some ''iot-device-42'') False None (Some ''IoT-Device-42'')"
    using T3 by simp
  have rej: "fst (verifyConnection env_never (Some ''IoT-Device-42'') False None 1 (1/2) 0 start)
       = Rejected ''unableToConnect''"
    by code_simp
  from again m1 m2 m3 rej show ?thesis by blast
qed


section \<open>Normalisation of the passphrase\<close>

text \<open>
  Claim C5. With the empty passphrase, both \<open>connectToProtectedSSIDOnce\<close> and
  \<open>connectToProtectedSSIDPrefixOnce\<close> hand to \<open>apply\<close> at most one configuration, and it
  is the open one (no passphrase, hence no cipher), whatever \<open>isWEP\<close> is; the whole run,
  outcome and trace, does not depend on \<open>isWEP\<close>.
\<close>

theorem empty_passphrase_gives_open_configuration:
  "appliedConfigs (trace (snd (connectToProtectedSSIDOnce env ssid [] isWEP once w)))
     = appliedConfigs (trace w)
       @ (if available 11 env \<and> observedSSID env (fetches w) \<noteq> Some ssid
          then [\<lparr>network = SSID ssid, credentials = Open, joinOnce = once\<rparr>] else [])
   \<and> appliedConfigs (trace (snd (connectToProtectedSSIDPrefixOnce env ssidPrefix [] isWEP once w)))
     = appliedConfigs (trace w)
       @ (if available 13 env
          then [\<lparr>network = SSIDPrefix ssidPrefix, credentials = Open, joinOnce = once\<rparr>] else [])
   \<and> connectToProtectedSSIDOnce env ssid [] isWEP once w
     = connectToProtectedSSIDOnce env ssid [] False once w
   \<and> connectToProtectedSSIDPrefixOnce env ssidPrefix [] isWEP once w
     = connectToProtectedSSIDPrefixOnce env ssidPrefix [] False once w"
  by (simp add: connectToProtectedSSIDOnce_def connectToProtectedSSIDPrefixOnce_def
      applyConfiguration_applied NEHotspotConfiguration_ssid_def NEHotspotConfiguration_ssidPrefix_def)

theorem empty_passphrase_gives_open_configuration_witness:
  "appliedConfigs (trace (snd (connectToProtectedSSIDOnce env_never ''IoT-Device-42'' [] True True start)))
     = [\<lparr>network = SSID ''IoT-Device-42'', credentials = Open, joinOnce = True\<rparr>]
   \<and> appliedConfigs (trace (snd (connectToProtectedSSIDPrefixOnce env_never ''IoT'' [] True False start)))
     = [\<lparr>network = SSIDPrefix ''IoT'', credentials = Open, joinOnce = False\<rparr>]"
proof -
  have h: "available 11 env_never" "available 13 env_never"
    "observedSSID env_never (fetches start) \<noteq> Some ''IoT-Device-42''"
    "appliedConfigs (trace start) = []"
    by (simp_all add: available_def env_never_def no_identity_def start_def)
  have "appliedConfigs (trace (snd (connectToProtectedSSIDOnce env_never ''IoT-Device-42'' [] True True start)))
     = appliedConfigs (trace start)
       @ (if available 11 env_never \<and> observedSSID env_never (fetches start) \<noteq> Some ''IoT-Device-42''
          then [\<lparr>network = SSID ''IoT-Device-42'', credentials = Open, joinOnce = True\<rparr>] else [])"
    using empty_passphrase_gives_open_configuration [where env = env_never and ssid = "''IoT-Device-42''" and isWEP = True
              and once = True and w = start and ssidPrefix = "''IoT''"]
    by (rule conjunct1)
  moreover have "appliedConfigs (trace (snd (connectToProtectedSSIDPrefixOnce env_never ''IoT'' [] True False start)))
     = appliedConfigs (trace start)
       @ (if available 13 env_never
          then [\<lparr>network = SSIDPrefix ''IoT'', credentials = Open, joinOnce = False\<rparr>] else [])"
    using empty_passphrase_gives_open_configuration [where env = env_never and ssid = "''IoT-Device-42''" and isWEP = True
              and once = False and w = start and ssidPrefix = "''IoT''"]
    by blast
  ultimately show ?thesis using h by simp
qed


section \<open>The "already connected" short-circuit\<close>







section \<open>The IoT helpers of the JavaScript wrapper\<close>

text \<open>
  Claim C9. \<open>disconnectFromIoTNetwork\<close> fulfils its promise in every environment:
  whatever the unbind, disconnect, identity-fetch and configuration-removal calls do,
  rejections included, both copies of the function complete without throwing.
\<close>

theorem disconnectFromIoTNetwork_never_rejects:
  "fst (disconnectFromIoTNetwork env s) = Fulfilled
   \<and> fst (disconnectFromIoTNetwork_part004 env s) = Fulfilled"
  by (simp add: disconnectFromIoTNetwork_def disconnectFromIoTNetwork_part004_def Let_def)

text \<open>
  Claim C3 asks that the binding flag be false whenever the IoT connect operation fails
  after verification has begun, also when the unbind call throws. In src/index.ts the
  flag is cleared inside the \<open>try\<close>, after the unbind call: on Android, with traffic
  bound, another network observed and the unbind call rejecting, the operation throws
  its connection error with \<open>isIoTNetworkBound\<close> still true. The second copy clears the
  flag after the \<open>try\<close> (lemma \<open>part004_mismatch_clears_flag\<close>), yet it sets the flag
  before the identity fetch and has no handler around it: when that fetch rejects, the
  operation fails with the flag true.
\<close>

theorem iot_connect_failure_leaves_binding_flag_set:
  "fst (connectToIoTNetwork android_unbind_rejects ''IoT-Device-42'' [] default_options idle)
     = Thrown (FailedToConnect ''IoT-Device-42'' (Some ''HomeWifi''))
   \<and> isIoTNetworkBound
        (snd (connectToIoTNetwork android_unbind_rejects ''IoT-Device-42'' [] default_options idle))
   \<and> fst (connectToIoTNetwork_part004 ios_identity_rejects ''IoT-Device-42'' [] default_options idle)
     = Thrown (NativeRejection ''couldNotDetectSSID'')
   \<and> isIoTNetworkBound
        (snd (connectToIoTNetwork_part004 ios_identity_rejects ''IoT-Device-42'' [] default_options idle))"
  by code_simp

text \<open>
  Claim C7 asks that, with \<open>usePrefix\<close>, the final check accept an identity exactly
  when it starts with the requested prefix, without case. The check is
  \<open>includes\<close>, which accepts the prefix anywhere in the identity: asked for the prefix
  \<open>IoT\<close> while the device is on \<open>My-IoT-Cam\<close>, both copies of the function fulfil
  their promise, although the identity does not start with the prefix. (Every identity
  that does start with it is accepted, for text in the ASCII range: lemma
  \<open>prefix_match_is_accepted\<close>.)
\<close>

theorem iot_connect_accepts_prefix_inside_identity:
  "fst (connectToIoTNetwork ios_on_other_network ''IoT'' [] prefix_options idle) = Fulfilled
   \<and> fst (connectToIoTNetwork_part004 ios_on_other_network ''IoT'' [] prefix_options idle) = Fulfilled
   \<and> \<not> starts_with_ignoring_case ''My-IoT-Cam'' ''IoT''"
  by code_simp

end
